theory Spec2Isabelle
  imports Main "HOL-Library.Multiset"
begin

section \<open>The greeter script \<^verbatim>\<open>hello.py\<close>\<close>

text \<open>
  The script under verification, line by line:
  \<^verbatim>\<open>
   1  from mpi4py import MPI
   3  comm = MPI.COMM_WORLD
   5  size = comm.Get_size()
   6  rank = comm.Get_rank()
   7  name = MPI.Get_processor_name()
  11  print("Hello, World! I am process %d of %d on %s.\n" % (rank, size, name))
  \<close>
  It is modelled as a straight-line program over an explicit interpreter state. The
  message-passing library is external to the script: what it answers is a parameter of
  the model (\<open>mpi_runtime\<close>). Exceptions are values of a sum type; an exception that no
  statement catches ends the run.
\<close>

subsection \<open>Values and exceptions\<close>

datatype pyval = PyInt int | PyStr string

datatype py_error =
    ImportError string
  | NameError string
  | TypeError string
  | ValueError string

subsection \<open>Rendering an integer: what \<^verbatim>\<open>%d\<close> writes\<close>

definition newline :: char where
  "newline = CHR 0x0A"

definition digit_char :: "nat \<Rightarrow> char" where
  "digit_char d = char_of (48 + d)"

fun digits_of_nat :: "nat \<Rightarrow> string" where
  "digits_of_nat n =
     (if n < 10 then [digit_char n]
      else digits_of_nat (n div 10) @ [digit_char (n mod 10)])"

declare digits_of_nat.simps [simp del]

definition str_int :: "int \<Rightarrow> string" where
  "str_int i =
     (if i < 0 then CHR ''-'' # digits_of_nat (nat (- i)) else digits_of_nat (nat i))"

subsection \<open>The \<^verbatim>\<open>%\<close> operator on a format string and a tuple\<close>

text \<open>
  The fragment of printf-style formatting the script uses: the conversions \<^verbatim>\<open>%d\<close>,
  \<^verbatim>\<open>%s\<close> and the escape \<^verbatim>\<open>%%\<close>, with no flags, width or precision. The arguments
  are consumed left to right. Too few arguments, arguments left over and a string given to
  \<^verbatim>\<open>%d\<close> raise \<open>TypeError\<close>; a format that ends in a lone \<^verbatim>\<open>%\<close> and a conversion
  outside the fragment raise \<open>ValueError\<close>.
\<close>

fun convert :: "char \<Rightarrow> pyval \<Rightarrow> py_error + string" where
  "convert k (PyInt i) =
     (if k = CHR ''d'' \<or> k = CHR ''s'' then Inr (str_int i)
      else Inl (ValueError ''unsupported format character''))"
| "convert k (PyStr s) =
     (if k = CHR ''s'' then Inr s
      else if k = CHR ''d'' then Inl (TypeError ''%d format: a number is required, not str'')
      else Inl (ValueError ''unsupported format character''))"

fun py_format :: "string \<Rightarrow> pyval list \<Rightarrow> py_error + string" where
  "py_format [] [] = Inr []"
| "py_format [] (a # as) =
     Inl (TypeError ''not all arguments converted during string formatting'')"
| "py_format (c # cs) args =
     (if c \<noteq> CHR ''%'' then
        (case py_format cs args of Inl e \<Rightarrow> Inl e | Inr t \<Rightarrow> Inr (c # t))
      else
        (case cs of
           [] \<Rightarrow> Inl (ValueError ''incomplete format'')
         | k # rest \<Rightarrow>
             if k = CHR ''%'' then
               (case py_format rest args of Inl e \<Rightarrow> Inl e | Inr t \<Rightarrow> Inr (CHR ''%'' # t))
             else
               (case args of
                  [] \<Rightarrow> Inl (TypeError ''not enough arguments for format string'')
                | a # as \<Rightarrow>
                    (case convert k a of
                       Inl e \<Rightarrow> Inl e
                     | Inr s \<Rightarrow>
                         (case py_format rest as of
                            Inl e \<Rightarrow> Inl e
                          | Inr t \<Rightarrow> Inr (s @ t))))))"

text \<open>The format string of line 11; it ends in the newline the source writes as \<^verbatim>\<open>\n\<close>.\<close>

definition greeting_fmt :: string where
  "greeting_fmt = ''Hello, World! I am process %d of %d on %s.'' @ [newline]"

subsection \<open>The environment of a process\<close>

text \<open>
  What the message-passing library answers in this process. The library is not part of
  the script, so its answers are parameters: whether loading and initialising it at the
  import succeeds (\<open>None\<close>) or raises, and the values the three queries return.

  Initialising the library is more than binding a name: it performs the handshake among
  the co-launched processes (the specification's "implicit, process-wide,
  zero-configuration handshake among co-launched processes establishing group
  membership"). What that does to the process's environment is a parameter as well: the
  sockets the library opens (\<open>rt_opens\<close>) and the files it creates (\<open>rt_creates\<close>).
\<close>

record mpi_runtime =
  rt_init :: "py_error option"
  rt_size :: int
  rt_rank :: int
  rt_name :: string
  rt_opens :: "nat \<rightharpoonup> string"
  rt_creates :: "string \<rightharpoonup> string"

text \<open>The queries of the library, as the script calls them; the state keeps a log.\<close>

datatype mpi_call = Get_size | Get_rank | Get_processor_name

text \<open>
  The operating-system resources a process could touch: its standard output (the text
  written so far), the file system, its sockets, its environment variables and its
  command line.
\<close>

record world =
  stdout :: string
  files :: "string \<rightharpoonup> string"
  sockets :: "nat \<rightharpoonup> string"
  environ :: "string \<rightharpoonup> string"
  argv :: "string list"

text \<open>
  Modelled from the spec: the initialisation of the library is not in the script; the
  specification describes it as the handshake that establishes group membership among
  the co-launched processes. What a successful initialisation leaves in the world is the
  sockets it opened and the files it created, on top of what was there. Standard output,
  the environment variables and the command line are not among them.
\<close>

definition mpi_init_effect :: "mpi_runtime \<Rightarrow> world \<Rightarrow> world" where
  "mpi_init_effect rt w =
     w\<lparr>files := files w ++ rt_creates rt, sockets := sockets w ++ rt_opens rt\<rparr>"

text \<open>
  The interpreter state: the module's global names (\<open>None\<close> while a name is unbound),
  the log of library queries, and the world.
\<close>

datatype communicator = COMM_WORLD

record py_state =
  name_MPI :: bool
  var_comm :: "communicator option"
  var_size :: "int option"
  var_rank :: "int option"
  var_name :: "string option"
  calls :: "mpi_call list"
  os :: world

definition initial :: "world \<Rightarrow> py_state" where
  "initial w =
     \<lparr>name_MPI = False, var_comm = None, var_size = None, var_rank = None,
      var_name = None, calls = [], os = w\<rparr>"

subsection \<open>The statements\<close>

text \<open>\<^verbatim>\<open>print(s)\<close> writes \<open>s\<close> and then a line terminator to standard output.\<close>

definition py_print :: "string \<Rightarrow> world \<Rightarrow> world" where
  "py_print s w = w\<lparr>stdout := stdout w @ s @ [newline]\<rparr>"

datatype stmt =
    ImportMPI
  | AssignComm
  | AssignSize
  | AssignRank
  | AssignName
  | PrintGreeting

text \<open>
  One statement. The import loads and initialises the library: when that raises, nothing
  is bound and the world is as it was; when it succeeds, the name \<open>MPI\<close> is bound and the
  initialisation has had its effect on the world. Reading a name that is unbound raises
  \<open>NameError\<close>; the tuple of line 11
  is evaluated left to right, then formatted, then printed, so a formatting error
  leaves standard output as it was.
\<close>

fun exec :: "mpi_runtime \<Rightarrow> stmt \<Rightarrow> py_state \<Rightarrow> py_error + py_state" where
  "exec rt ImportMPI st =
     (case rt_init rt of
        Some e \<Rightarrow> Inl e
      | None \<Rightarrow> Inr (st\<lparr>name_MPI := True, os := mpi_init_effect rt (os st)\<rparr>))"
| "exec rt AssignComm st =
     (if name_MPI st then Inr (st\<lparr>var_comm := Some COMM_WORLD\<rparr>)
      else Inl (NameError ''MPI''))"
| "exec rt AssignSize st =
     (case var_comm st of
        None \<Rightarrow> Inl (NameError ''comm'')
      | Some c \<Rightarrow> Inr (st\<lparr>var_size := Some (rt_size rt), calls := calls st @ [Get_size]\<rparr>))"
| "exec rt AssignRank st =
     (case var_comm st of
        None \<Rightarrow> Inl (NameError ''comm'')
      | Some c \<Rightarrow> Inr (st\<lparr>var_rank := Some (rt_rank rt), calls := calls st @ [Get_rank]\<rparr>))"
| "exec rt AssignName st =
     (if name_MPI st
      then Inr (st\<lparr>var_name := Some (rt_name rt), calls := calls st @ [Get_processor_name]\<rparr>)
      else Inl (NameError ''MPI''))"
| "exec rt PrintGreeting st =
     (case var_rank st of
        None \<Rightarrow> Inl (NameError ''rank'')
      | Some r \<Rightarrow>
          (case var_size st of
             None \<Rightarrow> Inl (NameError ''size'')
           | Some s \<Rightarrow>
               (case var_name st of
                  None \<Rightarrow> Inl (NameError ''name'')
                | Some n \<Rightarrow>
                    (case py_format greeting_fmt [PyInt r, PyInt s, PyStr n] of
                       Inl e \<Rightarrow> Inl e
                     | Inr t \<Rightarrow> Inr (st\<lparr>os := py_print t (os st)\<rparr>)))))"

text \<open>The script: its six statements in source order.\<close>

definition hello :: "stmt list" where
  "hello = [ImportMPI, AssignComm, AssignSize, AssignRank, AssignName, PrintGreeting]"

text \<open>
  Running statements in sequence stops at the first exception and keeps the state reached.
  \<open>trace\<close> lists every state the run goes through, the first one included.
\<close>

fun exec_all :: "mpi_runtime \<Rightarrow> stmt list \<Rightarrow> py_state \<Rightarrow> py_error option \<times> py_state" where
  "exec_all rt [] st = (None, st)"
| "exec_all rt (c # cs) st =
     (case exec rt c st of
        Inl e \<Rightarrow> (Some e, st)
      | Inr st' \<Rightarrow> exec_all rt cs st')"

fun trace :: "mpi_runtime \<Rightarrow> stmt list \<Rightarrow> py_state \<Rightarrow> py_state list" where
  "trace rt [] st = [st]"
| "trace rt (c # cs) st =
     st # (case exec rt c st of
             Inl e \<Rightarrow> []
           | Inr st' \<Rightarrow> trace rt cs st')"

text \<open>
  A process: the interpreter runs the script from the initial state. Its exit status is 0
  when the script ends normally and 1 when an exception ends it.
\<close>

definition exit_status :: "py_error option \<Rightarrow> int" where
  "exit_status r = (case r of None \<Rightarrow> 0 | Some e \<Rightarrow> 1)"

definition run :: "mpi_runtime \<Rightarrow> world \<Rightarrow> py_state \<times> int" where
  "run rt w = (case exec_all rt hello (initial w) of (r, st) \<Rightarrow> (st, exit_status r))"

definition run_stdout :: "mpi_runtime \<Rightarrow> world \<Rightarrow> string" where
  "run_stdout rt w = stdout (os (fst (run rt w)))"

definition run_status :: "mpi_runtime \<Rightarrow> world \<Rightarrow> int" where
  "run_status rt w = snd (run rt w)"

text \<open>
  A runtime that initialises and answers the triple \<open>(r, s, h)\<close>, and whose initialisation
  leaves no socket and no file behind.
\<close>

definition answering :: "int \<Rightarrow> int \<Rightarrow> string \<Rightarrow> mpi_runtime" where
  "answering r s h =
     \<lparr>rt_init = None, rt_size = s, rt_rank = r, rt_name = h,
      rt_opens = Map.empty, rt_creates = Map.empty\<rparr>"

subsection \<open>The line the specification describes\<close>

text \<open>
  The specification's words: a line of the form
  \<^verbatim>\<open>Hello, World! I am process R of S on H.\<close> with the decimal renderings of \<open>R\<close> and
  \<open>S\<close> and the host name \<open>H\<close>; the line terminator is not part of it.
\<close>

definition spec_greeting :: "int \<Rightarrow> int \<Rightarrow> string \<Rightarrow> string" where
  "spec_greeting r s h =
     ''Hello, World! I am process '' @ str_int r @ '' of '' @ str_int s @ '' on '' @ h @ ''.''"

text \<open>What a run added to standard output.\<close>

definition written :: "mpi_runtime \<Rightarrow> world \<Rightarrow> string" where
  "written rt w = drop (length (stdout w)) (run_stdout rt w)"

subsection \<open>A launch of several processes\<close>

text \<open>
  Modelled from the spec: the launcher and the runtime's group formation are not in the
  script. The specification describes a valid launch of \<open>N\<close> processes as one where the
  process of rank \<open>r\<close>, for each \<open>r\<close> in \<open>0..N-1\<close>, runs the program with
  \<open>self_rank = r\<close> and \<open>world_size = N\<close> (rank: "a peer's unique zero-based index within
  its cooperating group"; world size: "total count of cooperating peers"). \<open>host r\<close> is
  the name of the machine the process of rank \<open>r\<close> runs on.
\<close>

definition launch :: "nat \<Rightarrow> (nat \<Rightarrow> string) \<Rightarrow> mpi_runtime list" where
  "launch N host = map (\<lambda>r. answering (int r) (int N) (host r)) [0..<N]"

text \<open>
  What the processes of a launch write, one entry for each process. Every process runs the
  script on its own; the order in which their outputs reach a shared terminal is not
  fixed, so properties of a job are stated on the multiset of the entries.
\<close>

definition job :: "nat \<Rightarrow> (nat \<Rightarrow> string) \<Rightarrow> world \<Rightarrow> string list" where
  "job N host w = map (\<lambda>rt. written rt w) (launch N host)"

subsection \<open>Reading a greeting back\<close>

text \<open>
  An observer of standard output: it reads the rank, the size and the host name off what
  a process wrote (the greeting, the newline of the format string and the line terminator
  of \<^verbatim>\<open>print\<close>).
\<close>

definition is_digit :: "char \<Rightarrow> bool" where
  "is_digit c = (48 \<le> (of_char c :: nat) \<and> (of_char c :: nat) \<le> 57)"

definition digit_val :: "char \<Rightarrow> nat" where
  "digit_val c = of_char c - 48"

definition nat_of_digits :: "string \<Rightarrow> nat" where
  "nat_of_digits ds = foldl (\<lambda>a c. 10 * a + digit_val c) 0 ds"

definition read_nat :: "string \<Rightarrow> (nat \<times> string) option" where
  "read_nat s =
     (let ds = takeWhile is_digit s
      in if ds = [] then None else Some (nat_of_digits ds, dropWhile is_digit s))"

definition read_int :: "string \<Rightarrow> (int \<times> string) option" where
  "read_int s =
     (case s of
        [] \<Rightarrow> None
      | c # cs \<Rightarrow>
          if c = CHR ''-''
          then (case read_nat cs of None \<Rightarrow> None | Some (n, rest) \<Rightarrow> Some (- int n, rest))
          else (case read_nat s of None \<Rightarrow> None | Some (n, rest) \<Rightarrow> Some (int n, rest)))"

definition strip_prefix :: "string \<Rightarrow> string \<Rightarrow> string option" where
  "strip_prefix p s = (if take (length p) s = p then Some (drop (length p) s) else None)"

definition strip_suffix :: "string \<Rightarrow> string \<Rightarrow> string option" where
  "strip_suffix q s =
     (if length q \<le> length s \<and> drop (length s - length q) s = q
      then Some (take (length s - length q) s) else None)"

definition read_greeting :: "string \<Rightarrow> (int \<times> int \<times> string) option" where
  "read_greeting out =
     (case strip_prefix ''Hello, World! I am process '' out of
        None \<Rightarrow> None
      | Some s1 \<Rightarrow>
          (case read_int s1 of
             None \<Rightarrow> None
           | Some (r, s2) \<Rightarrow>
               (case strip_prefix '' of '' s2 of
                  None \<Rightarrow> None
                | Some s3 \<Rightarrow>
                    (case read_int s3 of
                       None \<Rightarrow> None
                     | Some (n, s4) \<Rightarrow>
                         (case strip_prefix '' on '' s4 of
                            None \<Rightarrow> None
                          | Some s5 \<Rightarrow>
                              (case strip_suffix (''.'' @ [newline, newline]) s5 of
                                 None \<Rightarrow> None
                               | Some h \<Rightarrow> Some (r, n, h)))))))"

definition printed_rank :: "string \<Rightarrow> int option" where
  "printed_rank out = map_option fst (read_greeting out)"

definition printed_size :: "string \<Rightarrow> int option" where
  "printed_size out = map_option (fst \<circ> snd) (read_greeting out)"

subsection \<open>Lines of standard output\<close>

text \<open>
  Text is cut into lines at newline characters, as a terminal shows it; a newline ends a
  line, so text that ends in a newline has no further line after it.
\<close>

fun split_lines :: "string \<Rightarrow> string list" where
  "split_lines [] = [[]]"
| "split_lines (c # cs) =
     (if c = newline then [] # split_lines cs
      else (case split_lines cs of
              [] \<Rightarrow> [[c]]
            | l # ls \<Rightarrow> (c # l) # ls))"

definition lines_of :: "string \<Rightarrow> string list" where
  "lines_of s = (let ls = split_lines s in if last ls = [] then butlast ls else ls)"

text \<open>
  Reading one line as a greeting of the fixed format
  \<^verbatim>\<open>Hello, World! I am process R of S on H.\<close>: the rank, the size and the host name
  it shows, or \<open>None\<close> when the line does not have the format.
\<close>

definition read_line :: "string \<Rightarrow> (int \<times> int \<times> string) option" where
  "read_line l =
     (case strip_prefix ''Hello, World! I am process '' l of
        None \<Rightarrow> None
      | Some s1 \<Rightarrow>
          (case read_int s1 of
             None \<Rightarrow> None
           | Some (r, s2) \<Rightarrow>
               (case strip_prefix '' of '' s2 of
                  None \<Rightarrow> None
                | Some s3 \<Rightarrow>
                    (case read_int s3 of
                       None \<Rightarrow> None
                     | Some (n, s4) \<Rightarrow>
                         (case strip_prefix '' on '' s4 of
                            None \<Rightarrow> None
                          | Some s5 \<Rightarrow>
                              (case strip_suffix ''.'' s5 of
                                 None \<Rightarrow> None
                               | Some h \<Rightarrow> Some (r, n, h)))))))"

text \<open>The greetings among some lines, and all the lines the processes of a launch write.\<close>

definition greetings_in :: "string list \<Rightarrow> (int \<times> int \<times> string) list" where
  "greetings_in ls = List.map_filter read_line ls"

definition job_lines :: "nat \<Rightarrow> (nat \<Rightarrow> string) \<Rightarrow> world \<Rightarrow> string list" where
  "job_lines N host w = concat (map lines_of (job N host w))"

subsection \<open>The interpreter's limit on converting an integer to a string\<close>

text \<open>
  Interpreters from version 3.11 on refuse to convert an integer to a decimal string when
  it has more digits than a limit (\<^verbatim>\<open>sys.get_int_max_str_digits()\<close>, 4300 unless
  configured otherwise; 0 switches the check off, and older interpreters have none): the
  conversion raises \<open>ValueError\<close>. The sign does not count as a digit. \<open>py_format_lim\<close> is
  \<open>py_format\<close> on an interpreter with limit \<open>maxd\<close>.

  The values the script formats come from the library as machine integers of 32 bits, ten
  digits at most, and the interpreter accepts no limit below 640; so the limit never
  strikes in a run of the script, and \<open>exec\<close> formats with \<open>py_format\<close>.
\<close>

definition default_max_str_digits :: nat where
  "default_max_str_digits = 4300"

definition too_many_digits :: "nat \<Rightarrow> int \<Rightarrow> bool" where
  "too_many_digits maxd i = (0 < maxd \<and> maxd < length (digits_of_nat (nat \<bar>i\<bar>)))"

fun convert_lim :: "nat \<Rightarrow> char \<Rightarrow> pyval \<Rightarrow> py_error + string" where
  "convert_lim maxd k (PyInt i) =
     (if k = CHR ''d'' \<or> k = CHR ''s'' then
        (if too_many_digits maxd i
         then Inl (ValueError ''Exceeds the limit for integer string conversion'')
         else Inr (str_int i))
      else Inl (ValueError ''unsupported format character''))"
| "convert_lim maxd k (PyStr s) =
     (if k = CHR ''s'' then Inr s
      else if k = CHR ''d'' then Inl (TypeError ''%d format: a number is required, not str'')
      else Inl (ValueError ''unsupported format character''))"

fun py_format_lim :: "nat \<Rightarrow> string \<Rightarrow> pyval list \<Rightarrow> py_error + string" where
  "py_format_lim maxd [] [] = Inr []"
| "py_format_lim maxd [] (a # as) =
     Inl (TypeError ''not all arguments converted during string formatting'')"
| "py_format_lim maxd (c # cs) args =
     (if c \<noteq> CHR ''%'' then
        (case py_format_lim maxd cs args of Inl e \<Rightarrow> Inl e | Inr t \<Rightarrow> Inr (c # t))
      else
        (case cs of
           [] \<Rightarrow> Inl (ValueError ''incomplete format'')
         | k # rest \<Rightarrow>
             if k = CHR ''%'' then
               (case py_format_lim maxd rest args of
                  Inl e \<Rightarrow> Inl e
                | Inr t \<Rightarrow> Inr (CHR ''%'' # t))
             else
               (case args of
                  [] \<Rightarrow> Inl (TypeError ''not enough arguments for format string'')
                | a # as \<Rightarrow>
                    (case convert_lim maxd k a of
                       Inl e \<Rightarrow> Inl e
                     | Inr s \<Rightarrow>
                         (case py_format_lim maxd rest as of
                            Inl e \<Rightarrow> Inl e
                          | Inr t \<Rightarrow> Inr (s @ t))))))"

subsection \<open>The rank invariant, and a world to run examples in\<close>

text \<open>
  The invariant of the data model, on the names of the script: once \<open>rank\<close> and \<open>size\<close>
  are both bound and the size is positive, \<open>0 \<le> rank < size\<close>.
\<close>

definition rank_inv :: "py_state \<Rightarrow> bool" where
  "rank_inv st =
     (case var_rank st of
        None \<Rightarrow> True
      | Some r \<Rightarrow>
          (case var_size st of
             None \<Rightarrow> True
           | Some s \<Rightarrow> 0 < s \<longrightarrow> 0 \<le> r \<and> r < s))"

definition empty_world :: world where
  "empty_world =
     \<lparr>stdout = [], files = Map.empty, sockets = Map.empty, environ = Map.empty, argv = []\<rparr>"

section \<open>Formatting\<close>

text \<open>Formatting can raise: too few arguments, a string for \<^verbatim>\<open>%d\<close>, arguments left over.\<close>

lemma py_format_can_raise:
  "py_format greeting_fmt [PyInt 1, PyInt 2] =
     Inl (TypeError ''not enough arguments for format string'')"
  "py_format greeting_fmt [PyInt 1, PyStr ''two'', PyStr ''h''] =
     Inl (TypeError ''%d format: a number is required, not str'')"
  "py_format greeting_fmt [PyInt 1, PyInt 2, PyStr ''h'', PyInt 3] =
     Inl (TypeError ''not all arguments converted during string formatting'')"
  by (simp_all add: greeting_fmt_def newline_def)

text \<open>On two integers and a string, as in line 11, it returns the greeting and a newline.\<close>

lemma format_greeting:
  "py_format greeting_fmt [PyInt r, PyInt s, PyStr h] = Inr (spec_greeting r s h @ [newline])"
  by (simp add: greeting_fmt_def spec_greeting_def newline_def)

section \<open>Running the script\<close>

lemma mpi_init_effect_simps [simp]:
  "stdout (mpi_init_effect rt w) = stdout w"
  "environ (mpi_init_effect rt w) = environ w"
  "argv (mpi_init_effect rt w) = argv w"
  "files (mpi_init_effect rt w) = files w ++ rt_creates rt"
  "sockets (mpi_init_effect rt w) = sockets w ++ rt_opens rt"
  by (simp_all add: mpi_init_effect_def)

lemma exec_all_hello_ok:
  "rt_init rt = None \<Longrightarrow>
   exec_all rt hello (initial w) =
     (None,
      \<lparr>name_MPI = True, var_comm = Some COMM_WORLD, var_size = Some (rt_size rt),
       var_rank = Some (rt_rank rt), var_name = Some (rt_name rt),
       calls = [Get_size, Get_rank, Get_processor_name],
       os = (mpi_init_effect rt w)
              \<lparr>stdout := stdout w @ spec_greeting (rt_rank rt) (rt_size rt) (rt_name rt)
                            @ [newline, newline]\<rparr>\<rparr>)"
  by (simp add: hello_def initial_def format_greeting py_print_def)

lemma exec_all_hello_fail:
  "rt_init rt = Some e \<Longrightarrow> exec_all rt hello (initial w) = (Some e, initial w)"
  by (simp add: hello_def)

lemma run_stdout_ok:
  "rt_init rt = None \<Longrightarrow>
   run_stdout rt w =
     stdout w @ spec_greeting (rt_rank rt) (rt_size rt) (rt_name rt) @ [newline, newline]"
  by (simp add: run_stdout_def run_def exec_all_hello_ok)

lemma run_stdout_fail: "rt_init rt = Some e \<Longrightarrow> run_stdout rt w = stdout w"
  using exec_all_hello_fail [of rt e w] by (simp add: run_stdout_def run_def initial_def)

lemma run_status_ok: "rt_init rt = None \<Longrightarrow> run_status rt w = 0"
  by (simp add: run_status_def run_def exec_all_hello_ok exit_status_def)

lemma run_status_fail: "rt_init rt = Some e \<Longrightarrow> run_status rt w = 1"
  by (simp add: run_status_def run_def exec_all_hello_fail exit_status_def)

lemma written_ok:
  "rt_init rt = None \<Longrightarrow>
   written rt w = spec_greeting (rt_rank rt) (rt_size rt) (rt_name rt) @ [newline, newline]"
  by (simp add: written_def run_stdout_ok)

lemma written_fail: "rt_init rt = Some e \<Longrightarrow> written rt w = []"
  by (simp add: written_def run_stdout_fail)


lemma trace_hello_ok:
  "rt_init rt = None \<Longrightarrow>
   trace rt hello (initial w) =
     [initial w,
      (initial w)\<lparr>name_MPI := True, os := mpi_init_effect rt w\<rparr>,
      (initial w)\<lparr>name_MPI := True, var_comm := Some COMM_WORLD,
                  os := mpi_init_effect rt w\<rparr>,
      (initial w)\<lparr>name_MPI := True, var_comm := Some COMM_WORLD,
                  var_size := Some (rt_size rt), calls := [Get_size],
                  os := mpi_init_effect rt w\<rparr>,
      (initial w)\<lparr>name_MPI := True, var_comm := Some COMM_WORLD,
                  var_size := Some (rt_size rt), var_rank := Some (rt_rank rt),
                  calls := [Get_size, Get_rank], os := mpi_init_effect rt w\<rparr>,
      (initial w)\<lparr>name_MPI := True, var_comm := Some COMM_WORLD,
                  var_size := Some (rt_size rt), var_rank := Some (rt_rank rt),
                  var_name := Some (rt_name rt),
                  calls := [Get_size, Get_rank, Get_processor_name],
                  os := mpi_init_effect rt w\<rparr>,
      (initial w)\<lparr>name_MPI := True, var_comm := Some COMM_WORLD,
                  var_size := Some (rt_size rt), var_rank := Some (rt_rank rt),
                  var_name := Some (rt_name rt),
                  calls := [Get_size, Get_rank, Get_processor_name],
                  os := (mpi_init_effect rt w)
                          \<lparr>stdout := stdout w
                             @ spec_greeting (rt_rank rt) (rt_size rt) (rt_name rt)
                             @ [newline, newline]\<rparr>\<rparr>]"
  by (simp add: hello_def initial_def format_greeting py_print_def)

lemma trace_hello_fail:
  "rt_init rt = Some e \<Longrightarrow> trace rt hello (initial w) = [initial w]"
  by (simp add: hello_def)

section \<open>Decimal rendering and reading back\<close>

lemma digits_of_nat_digits: "c \<in> set (digits_of_nat n) \<Longrightarrow> is_digit c"
proof (induction n rule: digits_of_nat.induct)
  case (1 n)
  show ?case
  proof (cases "n < 10")
    case True
    with "1.prems" show ?thesis
      by (subst (asm) digits_of_nat.simps) (simp add: digit_char_def is_digit_def)
  next
    case False
    have "n mod 10 < 10" by simp
    then have "is_digit (digit_char (n mod 10))"
      by (simp add: digit_char_def is_digit_def)
    with False 1 show ?thesis
      by (subst (asm) (2) digits_of_nat.simps) auto
  qed
qed

lemma digits_of_nat_nonempty: "digits_of_nat n \<noteq> []"
  by (subst digits_of_nat.simps) simp

lemma digit_val_digit_char: "d < 10 \<Longrightarrow> digit_val (digit_char d) = d"
  by (simp add: digit_val_def digit_char_def)

lemma nat_of_digits_snoc: "nat_of_digits (ds @ [c]) = 10 * nat_of_digits ds + digit_val c"
  by (simp add: nat_of_digits_def)

lemma nat_of_digits_digits_of_nat: "nat_of_digits (digits_of_nat n) = n"
proof (induction n rule: digits_of_nat.induct)
  case (1 n)
  show ?case
  proof (cases "n < 10")
    case True
    then show ?thesis
      by (subst digits_of_nat.simps) (simp add: nat_of_digits_def digit_val_digit_char)
  next
    case False
    with 1 have "nat_of_digits (digits_of_nat (n div 10)) = n div 10" by simp
    with False show ?thesis
      by (subst digits_of_nat.simps) (simp add: nat_of_digits_snoc digit_val_digit_char)
  qed
qed

lemma read_nat_digits:
  assumes "\<not> is_digit c"
  shows "read_nat (digits_of_nat n @ c # rest) = Some (n, c # rest)"
proof -
  have tw: "takeWhile is_digit (digits_of_nat n @ c # rest) = digits_of_nat n"
    using assms by (simp add: takeWhile_append2 digits_of_nat_digits)
  have dw: "dropWhile is_digit (digits_of_nat n @ c # rest) = c # rest"
    using assms by (simp add: dropWhile_append2 digits_of_nat_digits)
  show ?thesis
    unfolding read_nat_def tw dw
    by (simp add: digits_of_nat_nonempty nat_of_digits_digits_of_nat)
qed

lemma digits_of_nat_no_minus: "digits_of_nat n = d # ds \<Longrightarrow> d \<noteq> CHR ''-''"
proof
  assume eq: "digits_of_nat n = d # ds" and "d = CHR ''-''"
  have "d \<in> set (digits_of_nat n)" using eq by simp
  then have "is_digit d" by (rule digits_of_nat_digits)
  with \<open>d = CHR ''-''\<close> show False by (simp add: is_digit_def)
qed

lemma read_int_str_int:
  assumes "\<not> is_digit c"
  shows "read_int (str_int i @ c # rest) = Some (i, c # rest)"
proof (cases "i < 0")
  case True
  then show ?thesis
    by (simp add: str_int_def read_int_def read_nat_digits [OF assms])
next
  case False
  obtain d ds where eq: "digits_of_nat (nat i) = d # ds"
    using digits_of_nat_nonempty [of "nat i"] by (cases "digits_of_nat (nat i)") auto
  have nm: "d \<noteq> CHR ''-''" using eq by (rule digits_of_nat_no_minus)
  have "read_nat ((d # ds) @ c # rest) = Some (nat i, c # rest)"
    using read_nat_digits [OF assms, of "nat i" rest] eq by simp
  with False nm show ?thesis
    by (simp add: str_int_def read_int_def eq)
qed

lemma strip_prefix_append: "strip_prefix p (p @ s) = Some s"
  by (simp add: strip_prefix_def)

lemma strip_suffix_append: "strip_suffix q (s @ q) = Some s"
  by (simp add: strip_suffix_def)

lemma read_greeting_spec:
  "read_greeting (spec_greeting r s h @ [newline, newline]) = Some (r, s, h)"
proof -
  let ?tail3 = "h @ (''.'' @ [newline, newline])"
  let ?tail2 = "str_int s @ CHR '' '' # (''on '' @ ?tail3)"
  let ?tail1 = "str_int r @ CHR '' '' # (''of '' @ ?tail2)"
  have sp: "\<not> is_digit CHR '' ''" by (simp add: is_digit_def)
  have shape: "spec_greeting r s h @ [newline, newline] = ''Hello, World! I am process '' @ ?tail1"
    by (simp add: spec_greeting_def)
  have p1: "strip_prefix ''Hello, World! I am process '' (''Hello, World! I am process '' @ ?tail1) = Some ?tail1"
    by (rule strip_prefix_append)
  have i1: "read_int ?tail1 = Some (r, CHR '' '' # (''of '' @ ?tail2))"
    by (rule read_int_str_int [OF sp])
  have p2: "strip_prefix '' of '' (CHR '' '' # (''of '' @ ?tail2)) = Some ?tail2"
    using strip_prefix_append [of "'' of ''" ?tail2] by simp
  have i2: "read_int ?tail2 = Some (s, CHR '' '' # (''on '' @ ?tail3))"
    by (rule read_int_str_int [OF sp])
  have p3: "strip_prefix '' on '' (CHR '' '' # (''on '' @ ?tail3)) = Some ?tail3"
    using strip_prefix_append [of "'' on ''" ?tail3] by simp
  have p4: "strip_suffix (''.'' @ [newline, newline]) ?tail3 = Some h"
    by (rule strip_suffix_append)
  show ?thesis
    unfolding shape read_greeting_def p1 option.case i1 prod.case p2 i2 p3 p4 ..
qed

lemma str_int_examples:
  "str_int 0 = ''0''" "str_int 1 = ''1''" "str_int 3 = ''3''" "str_int 4 = ''4''"
  "str_int (- 7) = ''-7''" "str_int 12 = ''12''"
  by code_simp+

lemma answering_simps [simp]:
  "rt_init (answering r s h) = None" "rt_rank (answering r s h) = r"
  "rt_size (answering r s h) = s" "rt_name (answering r s h) = h"
  by (simp_all add: answering_def)

section \<open>What a process writes\<close>

text \<open>
  Claim C1, as amended. In every run in which the library initialises, with rank \<open>R\<close>,
  size \<open>S\<close> and host name \<open>H\<close>, the script adds to standard output exactly the text
  \<^verbatim>\<open>Hello, World! I am process R of S on H.\<close> followed by two newline characters
  (the greeting line and then an empty line), and nothing else.
\<close>

theorem greeting_then_blank_line:
  assumes "rt_init rt = None"
  shows "run_stdout rt w =
           stdout w @ ''Hello, World! I am process '' @ str_int (rt_rank rt) @ '' of ''
             @ str_int (rt_size rt) @ '' on '' @ rt_name rt @ ''.'' @ [newline, newline]"
  using run_stdout_ok [OF assms, of w] by (simp add: spec_greeting_def)

theorem greeting_then_blank_line_witness:
  "rt_init (answering 3 4 ''node'') = None \<and>
   run_stdout (answering 3 4 ''node'') empty_world =
     ''Hello, World! I am process 3 of 4 on node.'' @ [newline, newline]"
  using greeting_then_blank_line [of "answering 3 4 ''node''" empty_world]
  by (simp add: str_int_examples empty_world_def)

text \<open>
  Claim C1 as stated (the line followed by a single newline, and nothing else) fails: the
  process of rank 3 of 4 on host \<^verbatim>\<open>node\<close> does not write the line and one newline.
\<close>

theorem single_newline_counterexample:
  "written (answering 3 4 ''node'') empty_world \<noteq>
     ''Hello, World! I am process 3 of 4 on node.'' @ [newline]"
  by (simp add: written_ok spec_greeting_def str_int_examples)

text \<open>
  Claim C2, as amended. With one process (size 1, rank 0) on host \<open>h\<close>, all the script
  writes to standard output is \<^verbatim>\<open>Hello, World! I am process 0 of 1 on h.\<close>
  followed by two newline characters.
\<close>

theorem one_process_output:
  "written (answering 0 1 h) w =
     ''Hello, World! I am process 0 of 1 on '' @ h @ ''.'' @ [newline, newline] \<and>
   run_stdout (answering 0 1 h) w = stdout w @ written (answering 0 1 h) w"
  by (simp add: written_ok run_stdout_ok spec_greeting_def str_int_examples)

theorem one_process_output_witness:
  "written (answering 0 1 ''h'') empty_world =
     ''Hello, World! I am process 0 of 1 on h.'' @ [newline, newline]"
  using one_process_output [of "''h''" empty_world] by simp

text \<open>
  Claim C2 as stated (the whole output is the one line) fails on host \<^verbatim>\<open>h\<close>: the
  output is not the line with its terminator.
\<close>

theorem one_line_only_counterexample:
  "written (answering 0 1 ''h'') empty_world \<noteq>
     ''Hello, World! I am process 0 of 1 on h.'' @ [newline]"
  by (simp add: written_ok spec_greeting_def str_int_examples)

section \<open>A launch of N processes\<close>

lemma job_list:
  "job N host w = map (\<lambda>r. spec_greeting (int r) (int N) (host r) @ [newline, newline]) [0..<N]"
  by (simp add: job_def launch_def written_ok comp_def)

lemma printed_rank_spec:
  "printed_rank (spec_greeting r s h @ [newline, newline]) = Some r"
  by (simp add: printed_rank_def read_greeting_spec)

lemma printed_size_spec:
  "printed_size (spec_greeting r s h @ [newline, newline]) = Some s"
  by (simp add: printed_size_def read_greeting_spec)


lemma launch_member:
  "rt \<in> set (launch N host) \<Longrightarrow> \<exists>r < N. rt = answering (int r) (int N) (host r)"
  by (auto simp: launch_def)

text \<open>
  Claim C3. In a launch of \<open>N\<close> processes, every process has a positive size and a rank
  with \<open>0 \<le> rank < size\<close>. The invariant holds in every state the script goes through:
  the names \<open>rank\<close> and \<open>size\<close> are either still unbound or hold the value the single
  query returned, and the values printed are those values.
\<close>

theorem rank_in_range_for_lifetime:
  assumes "rt \<in> set (launch N host)"
  shows "0 < rt_size rt \<and> 0 \<le> rt_rank rt \<and> rt_rank rt < rt_size rt \<and>
         (\<forall>st \<in> set (trace rt hello (initial w)).
            rank_inv st \<and>
            var_rank st \<in> {None, Some (rt_rank rt)} \<and>
            var_size st \<in> {None, Some (rt_size rt)}) \<and>
         printed_rank (written rt w) = Some (rt_rank rt) \<and>
         printed_size (written rt w) = Some (rt_size rt)"
proof -
  from assms obtain r where r: "r < N" and rt: "rt = answering (int r) (int N) (host r)"
    using launch_member by blast
  have ok: "rt_init rt = None" by (simp add: rt)
  have range: "0 < rt_size rt \<and> 0 \<le> rt_rank rt \<and> rt_rank rt < rt_size rt"
    using r by (simp add: rt)
  have states: "\<forall>st \<in> set (trace rt hello (initial w)).
            rank_inv st \<and>
            var_rank st \<in> {None, Some (rt_rank rt)} \<and>
            var_size st \<in> {None, Some (rt_size rt)}"
    unfolding trace_hello_ok [OF ok] using range by (simp add: rank_inv_def initial_def)
  have out: "printed_rank (written rt w) = Some (rt_rank rt) \<and>
         printed_size (written rt w) = Some (rt_size rt)"
    by (simp add: written_ok [OF ok] printed_rank_spec printed_size_spec)
  from range states out show ?thesis by blast
qed

theorem rank_in_range_for_lifetime_witness:
  "answering 2 3 ''c'' \<in> set (launch 3 (\<lambda>r. ''c'')) \<and>
   rank_inv (last (trace (answering 2 3 ''c'') hello (initial empty_world))) \<and>
   printed_rank (written (answering 2 3 ''c'') empty_world) = Some 2 \<and>
   printed_size (written (answering 2 3 ''c'') empty_world) = Some 3"
proof -
  have m: "answering 2 3 ''c'' \<in> set (launch 3 (\<lambda>r. ''c''))"
    by (simp add: launch_def upt_rec)
  have l: "last (trace (answering 2 3 ''c'') hello (initial empty_world))
             \<in> set (trace (answering 2 3 ''c'') hello (initial empty_world))"
    by (rule last_in_set) (simp add: hello_def)
  from rank_in_range_for_lifetime [OF m, of empty_world] l m show ?thesis
    by simp
qed

subsection \<open>The lines a launch writes\<close>

lemma split_lines_plain: "newline \<notin> set l \<Longrightarrow> split_lines l = [l]"
  by (induction l) auto

lemma split_lines_append:
  "newline \<notin> set l \<Longrightarrow> split_lines (l @ newline # rest) = l # split_lines rest"
  by (induction l) auto

lemma lines_of_terminated_twice:
  assumes "newline \<notin> set l"
  shows "lines_of (l @ [newline, newline]) = [l, []]"
proof -
  have "split_lines (l @ newline # [newline]) = l # split_lines [newline]"
    using assms by (rule split_lines_append)
  then have "split_lines (l @ [newline, newline]) = [l, [], []]" by simp
  then show ?thesis by (simp add: lines_of_def)
qed

lemma newline_not_digit: "\<not> is_digit newline"
  by (simp add: is_digit_def newline_def)

lemma newline_notin_digits: "newline \<notin> set (digits_of_nat n)"
  using digits_of_nat_digits newline_not_digit by blast

lemma newline_notin_str_int: "newline \<notin> set (str_int i)"
  by (simp add: str_int_def newline_notin_digits) (simp add: newline_def)

lemma newline_notin_spec_greeting:
  "newline \<notin> set h \<Longrightarrow> newline \<notin> set (spec_greeting r s h)"
  by (simp add: spec_greeting_def newline_notin_str_int) (simp add: newline_def)

lemma read_line_spec: "read_line (spec_greeting r s h) = Some (r, s, h)"
proof -
  let ?tail3 = "h @ ''.''"
  let ?tail2 = "str_int s @ CHR '' '' # (''on '' @ ?tail3)"
  let ?tail1 = "str_int r @ CHR '' '' # (''of '' @ ?tail2)"
  have sp: "\<not> is_digit CHR '' ''" by (simp add: is_digit_def)
  have shape: "spec_greeting r s h = ''Hello, World! I am process '' @ ?tail1"
    by (simp add: spec_greeting_def)
  have p1: "strip_prefix ''Hello, World! I am process '' (''Hello, World! I am process '' @ ?tail1) = Some ?tail1"
    by (rule strip_prefix_append)
  have i1: "read_int ?tail1 = Some (r, CHR '' '' # (''of '' @ ?tail2))"
    by (rule read_int_str_int [OF sp])
  have p2: "strip_prefix '' of '' (CHR '' '' # (''of '' @ ?tail2)) = Some ?tail2"
    using strip_prefix_append [of "'' of ''" ?tail2] by simp
  have i2: "read_int ?tail2 = Some (s, CHR '' '' # (''on '' @ ?tail3))"
    by (rule read_int_str_int [OF sp])
  have p3: "strip_prefix '' on '' (CHR '' '' # (''on '' @ ?tail3)) = Some ?tail3"
    using strip_prefix_append [of "'' on ''" ?tail3] by simp
  have p4: "strip_suffix ''.'' ?tail3 = Some h"
    by (rule strip_suffix_append)
  show ?thesis
    unfolding shape read_line_def p1 option.case i1 prod.case p2 i2 p3 p4 ..
qed

lemma read_line_empty: "read_line [] = None"
  by (simp add: read_line_def strip_prefix_def)

lemma job_lines_list:
  assumes "\<forall>r<N. newline \<notin> set (host r)"
  shows "job_lines N host w =
           concat (map (\<lambda>r. [spec_greeting (int r) (int N) (host r), []]) [0..<N])"
proof -
  have "map lines_of (job N host w) =
          map (\<lambda>r. [spec_greeting (int r) (int N) (host r), []]) [0..<N]"
    using assms
    by (simp add: job_list lines_of_terminated_twice newline_notin_spec_greeting)
  then show ?thesis by (simp add: job_lines_def)
qed

lemma greetings_in_pairs:
  "greetings_in (concat (map (\<lambda>r. [spec_greeting (f r) n (host r), []]) rs)) =
     map (\<lambda>r. (f r, n, host r)) rs"
  by (induction rs) (simp_all add: greetings_in_def map_filter_simps read_line_spec read_line_empty)

lemma job_greetings_list:
  assumes "\<forall>r<N. newline \<notin> set (host r)"
  shows "greetings_in (job_lines N host w) = map (\<lambda>r. (int r, int N, host r)) [0..<N]"
  using greetings_in_pairs [of int "int N" host "[0..<N]"]
  by (simp add: job_lines_list [OF assms])

text \<open>
  Claim C4, as amended. When no host name contains a newline character, the lines that
  the \<open>N\<close> processes of a launch write are, in whatever order, the greeting of each rank
  \<open>r\<close> in \<open>0..N-1\<close> and an empty line after each. So exactly \<open>N\<close> of the lines are
  greetings, the ranks they show are \<open>0, ..., N-1\<close>, each once, and every one of them
  reports the size \<open>N\<close>.
\<close>

theorem job_greeting_lines:
  assumes "\<forall>r<N. newline \<notin> set (host r)"
  shows "length (greetings_in (job_lines N host w)) = N \<and>
         mset (map fst (greetings_in (job_lines N host w))) = mset (map int [0..<N]) \<and>
         distinct (map fst (greetings_in (job_lines N host w))) \<and>
         (\<forall>g \<in> set (greetings_in (job_lines N host w)). fst (snd g) = int N) \<and>
         mset (job_lines N host w) =
           mset (concat (map (\<lambda>r. [spec_greeting (int r) (int N) (host r), []]) [0..<N]))"
proof -
  note g = job_greetings_list [OF assms, of w]
  have len: "length (greetings_in (job_lines N host w)) = N"
    by (simp add: g)
  have ranks: "map fst (greetings_in (job_lines N host w)) = map int [0..<N]"
    by (simp add: g comp_def)
  have dist: "distinct (map fst (greetings_in (job_lines N host w)))"
    unfolding ranks by (simp add: distinct_map inj_on_def)
  have sizes: "\<forall>g \<in> set (greetings_in (job_lines N host w)). fst (snd g) = int N"
    by (auto simp: g)
  have ls: "mset (job_lines N host w) =
           mset (concat (map (\<lambda>r. [spec_greeting (int r) (int N) (host r), []]) [0..<N]))"
    by (simp only: job_lines_list [OF assms])
  from len ranks dist sizes ls show ?thesis by simp
qed

theorem job_greeting_lines_witness:
  "newline \<notin> set ''n'' \<and>
   length (greetings_in (job_lines 4 (\<lambda>r. ''n'') empty_world)) = 4 \<and>
   mset (map fst (greetings_in (job_lines 4 (\<lambda>r. ''n'') empty_world))) = {#0, 1, 2, 3#} \<and>
   fst (snd (hd (greetings_in (job_lines 4 (\<lambda>r. ''n'') empty_world)))) = 4"
proof -
  have n: "newline \<notin> set ''n''"
    by (simp add: newline_def)
  then have h: "\<forall>r<(4::nat). newline \<notin> set ((\<lambda>r. ''n'') r)"
    by simp
  have u: "[0..<4] = [0, 1, 2, 3::nat]" by (simp add: upt_rec)
  note t = job_greeting_lines [OF h, of empty_world]
  from t have "greetings_in (job_lines 4 (\<lambda>r. ''n'') empty_world) \<noteq> []" by auto
  then have "hd (greetings_in (job_lines 4 (\<lambda>r. ''n'') empty_world))
               \<in> set (greetings_in (job_lines 4 (\<lambda>r. ''n'') empty_world))"
    by (rule hd_in_set)
  with t n show ?thesis by (simp add: u)
qed

text \<open>
  Claim C4 as stated, for every launch, fails when a host name contains a newline: one
  process (\<open>N = 1\<close>) on a host whose name is
  \<^verbatim>\<open>a.\<close>, a newline, \<^verbatim>\<open>Hello, World! I am process 7 of 9 on b\<close>
  writes two lines of the fixed format, the second showing rank 7 and size 9.
\<close>

theorem job_lines_counterexample:
  "greetings_in
     (job_lines 1 (\<lambda>r. ''a.'' @ [newline] @ ''Hello, World! I am process 7 of 9 on b'')
        empty_world) = [(0, 1, ''a''), (7, 9, ''b'')] \<and>
   length (greetings_in
     (job_lines 1 (\<lambda>r. ''a.'' @ [newline] @ ''Hello, World! I am process 7 of 9 on b'')
        empty_world)) \<noteq> 1"
  by code_simp

section \<open>Exit status, effects on the world, determinism\<close>

lemma exec_all_hello_result: "fst (exec_all rt hello (initial w)) = rt_init rt"
  by (cases "rt_init rt") (simp_all add: exec_all_hello_ok exec_all_hello_fail)

text \<open>
  Claim C5. The only exception that can end the script is a failure of the import that
  initialises the library. When the import succeeds the run ends normally, with exit status
  0 and the greeting written; when it fails the exit status is not 0 and nothing has been
  written to standard output.
\<close>

theorem exit_status_of_run:
  "fst (exec_all rt hello (initial w)) = rt_init rt \<and>
   (rt_init rt = None \<longrightarrow> run_status rt w = 0 \<and> written rt w \<noteq> []) \<and>
   (rt_init rt \<noteq> None \<longrightarrow>
      run_status rt w \<noteq> 0 \<and> run_stdout rt w = stdout w \<and> written rt w = [])"
proof (cases "rt_init rt")
  case None
  then show ?thesis
    by (simp add: exec_all_hello_result run_status_ok written_ok)
next
  case (Some e)
  then show ?thesis
    by (simp add: exec_all_hello_result run_status_fail run_stdout_fail written_fail)
qed

theorem exit_status_of_run_witness:
  "run_status (answering 0 1 ''h'') empty_world = 0 \<and>
   run_status ((answering 0 1 ''h'')\<lparr>rt_init := Some (ImportError ''mpi4py'')\<rparr>) empty_world \<noteq> 0 \<and>
   written ((answering 0 1 ''h'')\<lparr>rt_init := Some (ImportError ''mpi4py'')\<rparr>) empty_world = []"
  using exit_status_of_run [of "answering 0 1 ''h''" empty_world]
    exit_status_of_run [of "(answering 0 1 ''h'')\<lparr>rt_init := Some (ImportError ''mpi4py'')\<rparr>"
      empty_world]
  by simp












lemma last_trace_hello_ok:
  "rt_init rt = None \<Longrightarrow> last (trace rt hello (initial w)) = fst (run rt w)"
  unfolding trace_hello_ok run_def exec_all_hello_ok by (simp add: initial_def)

text \<open>
  Claim C8. The run calls each of the three queries once. Along the run each of the names
  \<open>size\<close>, \<open>rank\<close> and \<open>name\<close> is unbound until its assignment and holds the value its
  query returned from then on; the values read off the greeting are those values.
\<close>

theorem values_fetched_once:
  assumes "rt_init rt = None"
  shows "calls (fst (run rt w)) = [Get_size, Get_rank, Get_processor_name] \<and>
         map var_size (trace rt hello (initial w)) =
           [None, None, None, Some (rt_size rt), Some (rt_size rt), Some (rt_size rt),
            Some (rt_size rt)] \<and>
         map var_rank (trace rt hello (initial w)) =
           [None, None, None, None, Some (rt_rank rt), Some (rt_rank rt), Some (rt_rank rt)] \<and>
         map var_name (trace rt hello (initial w)) =
           [None, None, None, None, None, Some (rt_name rt), Some (rt_name rt)] \<and>
         last (trace rt hello (initial w)) = fst (run rt w) \<and>
         read_greeting (written rt w) = Some (rt_rank rt, rt_size rt, rt_name rt)"
proof -
  have c: "calls (fst (run rt w)) = [Get_size, Get_rank, Get_processor_name]"
    by (simp add: run_def exec_all_hello_ok [OF assms])
  have s: "map var_size (trace rt hello (initial w)) =
           [None, None, None, Some (rt_size rt), Some (rt_size rt), Some (rt_size rt),
            Some (rt_size rt)]"
    unfolding trace_hello_ok [OF assms] by (simp add: initial_def)
  have r: "map var_rank (trace rt hello (initial w)) =
           [None, None, None, None, Some (rt_rank rt), Some (rt_rank rt), Some (rt_rank rt)]"
    unfolding trace_hello_ok [OF assms] by (simp add: initial_def)
  have n: "map var_name (trace rt hello (initial w)) =
           [None, None, None, None, None, Some (rt_name rt), Some (rt_name rt)]"
    unfolding trace_hello_ok [OF assms] by (simp add: initial_def)
  have l: "last (trace rt hello (initial w)) = fst (run rt w)"
    using assms by (rule last_trace_hello_ok)
  have g: "read_greeting (written rt w) = Some (rt_rank rt, rt_size rt, rt_name rt)"
    by (simp add: written_ok [OF assms] read_greeting_spec)
  from c s r n l g show ?thesis by blast
qed

theorem values_fetched_once_witness:
  "rt_init (answering 1 2 ''a'') = None \<and>
   calls (fst (run (answering 1 2 ''a'') empty_world)) = [Get_size, Get_rank, Get_processor_name] \<and>
   read_greeting (written (answering 1 2 ''a'') empty_world) = Some (1, 2, ''a'')"
  using values_fetched_once [of "answering 1 2 ''a''" empty_world] by simp

text \<open>
  Claim C9. The format string ends in a newline, so the formatted text does; \<^verbatim>\<open>print\<close>
  appends its own line terminator; what the run writes therefore ends in two newline
  characters, and so does standard output after the run.
\<close>

theorem stdout_ends_in_two_newlines:
  assumes "rt_init rt = None"
  shows "last greeting_fmt = newline \<and>
         py_format greeting_fmt [PyInt (rt_rank rt), PyInt (rt_size rt), PyStr (rt_name rt)] =
           Inr (spec_greeting (rt_rank rt) (rt_size rt) (rt_name rt) @ [newline]) \<and>
         written rt w =
           (spec_greeting (rt_rank rt) (rt_size rt) (rt_name rt) @ [newline]) @ [newline] \<and>
         drop (length (run_stdout rt w) - 2) (run_stdout rt w) = [newline, newline]"
proof -
  have l: "last greeting_fmt = newline"
    by (simp add: greeting_fmt_def)
  have d: "drop (length (run_stdout rt w) - 2) (run_stdout rt w) = [newline, newline]"
    by (simp add: run_stdout_ok [OF assms])
  from l d show ?thesis
    by (simp add: format_greeting written_ok [OF assms])
qed

theorem stdout_ends_in_two_newlines_witness:
  "rt_init (answering 0 1 ''h'') = None \<and>
   drop (length (run_stdout (answering 0 1 ''h'') empty_world) - 2)
     (run_stdout (answering 0 1 ''h'') empty_world) = [newline, newline]"
  using stdout_ends_in_two_newlines [of "answering 0 1 ''h''" empty_world] by simp

section \<open>Formatting under the interpreter's digit limit\<close>

text \<open>A number has at most \<open>k\<close> digits exactly when it is below \<open>10 ^ k\<close>.\<close>

lemma length_digits_le: "0 < k \<Longrightarrow> (length (digits_of_nat n) \<le> k) = (n < 10 ^ k)"
proof (induction n arbitrary: k rule: digits_of_nat.induct)
  case (1 n)
  show ?case
  proof (cases "n < 10")
    case True
    have "(10::nat) ^ 1 \<le> 10 ^ k"
      using "1.prems" by (intro power_increasing) simp_all
    with True have "n < 10 ^ k" by simp
    with True "1.prems" show ?thesis
      by (subst digits_of_nat.simps) simp
  next
    case False
    show ?thesis
    proof (cases k)
      case 0
      with "1.prems" show ?thesis by simp
    next
      case (Suc j)
      show ?thesis
      proof (cases "j = 0")
        case True
        with False Suc show ?thesis
          by (subst digits_of_nat.simps) (simp add: digits_of_nat_nonempty Suc_le_eq)
      next
        case jpos: False
        then have "(length (digits_of_nat (n div 10)) \<le> j) = (n div 10 < 10 ^ j)"
          using "1.IH" [OF False, of j] by simp
        moreover have "(n div 10 < 10 ^ j) = (n < 10 ^ Suc j)"
          by (simp add: div_less_iff_less_mult mult.commute)
        ultimately show ?thesis
          using False Suc by (subst digits_of_nat.simps) simp
      qed
    qed
  qed
qed

lemma too_many_digits_iff:
  "too_many_digits maxd i = (0 < maxd \<and> 10 ^ maxd \<le> \<bar>i\<bar>)"
proof (cases "0 < maxd")
  case True
  have "(maxd < length (digits_of_nat (nat \<bar>i\<bar>))) = (\<not> nat \<bar>i\<bar> < 10 ^ maxd)"
    using length_digits_le [OF True, of "nat \<bar>i\<bar>"] by auto
  also have "\<dots> = (10 ^ maxd \<le> \<bar>i\<bar>)"
  proof -
    have "(nat \<bar>i\<bar> < 10 ^ maxd) = (\<bar>i\<bar> < int (10 ^ maxd))"
      by (simp add: nat_less_iff)
    then show ?thesis by auto
  qed
  finally show ?thesis using True by (simp add: too_many_digits_def)
next
  case False
  then show ?thesis by (simp add: too_many_digits_def)
qed

lemma format_lim_greeting:
  "py_format_lim maxd greeting_fmt [PyInt r, PyInt s, PyStr h] =
     (if too_many_digits maxd r \<or> too_many_digits maxd s
      then Inl (ValueError ''Exceeds the limit for integer string conversion'')
      else Inr (spec_greeting r s h @ [newline]))"
  by (simp add: greeting_fmt_def spec_greeting_def newline_def)

text \<open>
  With the check switched off the formatter is \<open>py_format\<close>; and machine integers of 32
  bits are within every limit the interpreter accepts.
\<close>

lemma py_format_lim_off: "py_format_lim 0 fmt args = py_format fmt args"
proof (induction fmt args rule: py_format.induct)
  case 1
  show ?case by simp
next
  case (2 a as)
  show ?case by simp
next
  case (3 c cs args)
  have conv: "\<And>k a. convert_lim 0 k a = convert k a"
    subgoal for k a by (cases a) (simp_all add: too_many_digits_def)
    done
  show ?case
  proof (cases "c = CHR ''%''")
    case False
    with 3 show ?thesis by simp
  next
    case True
    show ?thesis
    proof (cases cs)
      case Nil
      with True show ?thesis by simp
    next
      case (Cons k rest)
      show ?thesis
      proof (cases "k = CHR ''%''")
        case kp: True
        with True Cons 3 show ?thesis by simp
      next
        case kn: False
        show ?thesis
        proof (cases args)
          case Nil
          with True Cons kn show ?thesis by simp
        next
          case (Cons a as)
          note args = this
          show ?thesis
          proof (cases "convert k a")
            case (Inl e)
            with True \<open>cs = k # rest\<close> kn args show ?thesis by (simp add: conv)
          next
            case (Inr t)
            with True \<open>cs = k # rest\<close> kn args 3 show ?thesis by (simp add: conv)
          qed
        qed
      qed
    qed
  qed
qed

lemma machine_int_within_limit:
  assumes "- (2 ^ 31) \<le> i" and "i < 2 ^ 31" and "640 \<le> maxd"
  shows "\<not> too_many_digits maxd i"
proof -
  have "\<bar>i\<bar> \<le> 2 ^ 31" using assms by simp
  also have "(2::int) ^ 31 < 10 ^ 10" by simp
  also have "(10::int) ^ 10 \<le> 10 ^ maxd"
    using assms(3) by (intro power_increasing) simp_all
  finally show ?thesis by (simp add: too_many_digits_iff)
qed

text \<open>
  So on the values a run of the script formats, the formatter with a limit and the one
  \<open>exec\<close> uses agree.
\<close>

lemma format_lim_machine_ints:
  assumes "- (2 ^ 31) \<le> r" and "r < 2 ^ 31" and "- (2 ^ 31) \<le> s" and "s < 2 ^ 31"
    and "640 \<le> maxd"
  shows "py_format_lim maxd greeting_fmt [PyInt r, PyInt s, PyStr h] =
           py_format greeting_fmt [PyInt r, PyInt s, PyStr h]"
  using machine_int_within_limit [OF assms(1,2,5)] machine_int_within_limit [OF assms(3,4,5)]
  by (simp add: format_lim_greeting format_greeting)

text \<open>
  Claim C10, as amended. For every integer rank and size with no more digits than the
  interpreter's limit (whatever their sign; any integer when there is no limit) and every
  host name, the empty one included, formatting the template succeeds and yields the
  template with the decimal renderings of rank and size and the host name in place, from
  which the three values can be read back.
\<close>

theorem formatting_within_digit_limit:
  assumes "maxd = 0 \<or> \<bar>r\<bar> < 10 ^ maxd" and "maxd = 0 \<or> \<bar>s\<bar> < 10 ^ maxd"
  shows "py_format_lim maxd greeting_fmt [PyInt r, PyInt s, PyStr h] =
           Inr (''Hello, World! I am process '' @ str_int r @ '' of '' @ str_int s @ '' on '' @ h
                  @ ''.'' @ [newline]) \<and>
         read_line (''Hello, World! I am process '' @ str_int r @ '' of '' @ str_int s @ '' on ''
                  @ h @ ''.'') = Some (r, s, h)"
proof -
  have r: "\<not> too_many_digits maxd r"
    using assms(1) by (auto simp: too_many_digits_iff)
  have s: "\<not> too_many_digits maxd s"
    using assms(2) by (auto simp: too_many_digits_iff)
  have f: "py_format_lim maxd greeting_fmt [PyInt r, PyInt s, PyStr h] =
             Inr (spec_greeting r s h @ [newline])"
    using r s by (simp add: format_lim_greeting)
  have g: "read_line (spec_greeting r s h) = Some (r, s, h)"
    by (rule read_line_spec)
  from f g show ?thesis by (simp add: spec_greeting_def)
qed

text \<open>A negative rank, size zero and the empty host name, under the default limit.\<close>

theorem formatting_within_digit_limit_witness:
  "\<bar>- 7 :: int\<bar> < 10 ^ default_max_str_digits \<and>
   py_format_lim default_max_str_digits greeting_fmt [PyInt (- 7), PyInt 0, PyStr []] =
     Inr (''Hello, World! I am process -7 of 0 on .'' @ [newline])"
proof -
  have a: "\<bar>- 7 :: int\<bar> < 10 ^ default_max_str_digits"
  proof -
    have "\<bar>- 7 :: int\<bar> < 10 ^ 1" by simp
    also have "(10::int) ^ 1 \<le> 10 ^ default_max_str_digits"
      by (intro power_increasing) (simp_all add: default_max_str_digits_def)
    finally show ?thesis .
  qed
  have b: "\<bar>0 :: int\<bar> < 10 ^ default_max_str_digits" by simp
  from formatting_within_digit_limit [of default_max_str_digits "- 7" 0 "[]"] a b
  show ?thesis by (simp add: str_int_examples)
qed

text \<open>
  Claim C10 as stated, for every integer, fails under the default limit: formatting the
  rank \<open>10 ^ 4300\<close>, which has 4301 digits, raises \<open>ValueError\<close>.
\<close>

theorem formatting_total_counterexample:
  "py_format_lim default_max_str_digits greeting_fmt
     [PyInt (10 ^ 4300), PyInt 1, PyStr ''h''] =
   Inl (ValueError ''Exceeds the limit for integer string conversion'')"
proof -
  have "(10::int) ^ 4300 \<le> \<bar>10 ^ 4300\<bar>" by (rule abs_ge_self)
  moreover have "0 < (4300::nat)" by simp
  ultimately have "too_many_digits default_max_str_digits (10 ^ 4300)"
    unfolding too_many_digits_iff default_max_str_digits_def by (rule conjI [rotated])
  then show ?thesis by (simp only: format_lim_greeting if_True simp_thms)
qed

end
